theory Spec2Isabelle
  imports Main
begin

section \<open>Data model of the sync engine (src/sync.js)\<close>

text \<open>
  An entity is a JSON object. The engine reads and deletes two of its properties only:
  \<open>_id\<close> (\<open>idAttribute\<close>) and \<open>_kmd.local\<close> (\<open>kmdAttribute\<close>); every other property is
  carried along untouched. A property that is absent is \<open>None\<close>. For \<open>_kmd.local\<close> the
  value \<open>Some b\<close> is a present property whose truthiness is \<open>b\<close>.
\<close>

record kmd =
  kmd_local :: "bool option"
  kmd_rest :: "(string \<times> string) list"

record entity =
  e_id :: "string option"
  e_kmd :: "kmd option"
  e_props :: "(string \<times> string) list"

text \<open>The \<open>HttpMethod\<close> enumeration (src/enums.js).\<close>

datatype http_method = GET | POST | PATCH | PUT | DELETE

text \<open>
  One row of the sync table, as \<open>createSaveOperation\<close> and \<open>createDeleteOperation\<close>
  build it: \<open>{key, entityId, collection, state: {method}, entity}\<close>.
\<close>

record syncEntity =
  key :: nat
  entityId :: string
  collection :: string
  state_method :: http_method
  entity :: entity

text \<open>
  The error classes of src/errors.js that the engine tells apart with \<open>instanceof\<close>, the
  \<open>SyncError\<close> it raises itself (with its message; the debug payload is left out), and any
  other failure of a request (network, 5xx, other 4xx).
\<close>

datatype error =
    NotFoundError
  | InsufficientCredentialsError
  | SyncError string
  | OtherError string

text \<open>The per-record result of \<open>push\<close>: \<open>{_id, entity, error}\<close>; \<open>error\<close> is absent on success.\<close>

record result =
  r_id :: "string option"
  r_entity :: entity
  r_error :: "error option"

text \<open>
  A request to the remote: method, collection, the last path segment when the URL has one
  (\<open>/ns/app/col/id\<close> against \<open>/ns/app/col\<close>) and the body. The remote is a parameter of the
  model: a function from the request to the error it raises or the \<open>response.data\<close> it
  returns.
\<close>

datatype net_request = NetworkRequest http_method string "string option" "entity option"

type_synonym network = "net_request \<Rightarrow> error + entity"

text \<open>
  The state the engine works on: the rows of the sync table, the persisted sync key
  (\<open>getSyncKey\<close>/\<open>setSyncKey\<close>), the rows of the local data collections by collection name
  and \<open>_id\<close>, and the remote requests issued so far, oldest first.
\<close>

record sync_state =
  journal :: "syncEntity list"
  syncKey :: "nat option"
  local_rows :: "string \<times> string \<rightharpoonup> entity"
  requests :: "net_request list"

section \<open>Helpers\<close>

text \<open>JavaScript truthiness of an optional string: absent and the empty string are falsy.\<close>

definition truthy :: "string option \<Rightarrow> bool" where
  "truthy s = (case s of None \<Rightarrow> False | Some v \<Rightarrow> v \<noteq> [])"

text \<open>A value inside a template literal: an absent value prints as \<open>undefined\<close>.\<close>

definition template :: "string option \<Rightarrow> string" where
  "template s = (case s of None \<Rightarrow> ''undefined'' | Some v \<Rightarrow> v)"

text \<open>
  Modelled from the spec: \<open>Metadata\<close> of src/metadata.js. Section 4.F:
  \<open>isLocal(entity)\<close> is a pure inspection of the entity, true when \<open>_kmd.local\<close> is truthy.
  The dispatch table of section 4.E takes this decision once per record, on the entity as
  it was enqueued; \<open>push\<close> below therefore evaluates it when the \<open>Metadata\<close> object is made.
\<close>

definition isLocal :: "entity \<Rightarrow> bool" where
  "isLocal e = (case e_kmd e of None \<Rightarrow> False | Some k \<Rightarrow> kmd_local k = Some True)"

text \<open>\<open>delete entity[idAttribute]; delete entity[kmdAttribute].local;\<close>\<close>

definition strip_local :: "entity \<Rightarrow> entity" where
  "strip_local e =
     e\<lparr>e_id := None, e_kmd := map_option (\<lambda>k. k\<lparr>kmd_local := None\<rparr>) (e_kmd e)\<rparr>"

text \<open>
  lodash \<open>orderBy(xs, 'key', ['desc'])\<close>: a stable sort, largest key first.
\<close>

fun insert_desc :: "syncEntity \<Rightarrow> syncEntity list \<Rightarrow> syncEntity list" where
  "insert_desc x [] = [x]"
| "insert_desc x (y # ys) = (if key y \<le> key x then x # y # ys else y # insert_desc x ys)"

definition orderBy_key_desc :: "syncEntity list \<Rightarrow> syncEntity list" where
  "orderBy_key_desc xs = foldr insert_desc xs []"

text \<open>
  lodash \<open>sortedUniqBy(xs, 'entityId')\<close>: one pass that keeps an element when its
  \<open>entityId\<close> differs from that of the last element kept (\<open>seen\<close>).
\<close>

fun baseSortedUniq :: "string \<Rightarrow> syncEntity list \<Rightarrow> syncEntity list" where
  "baseSortedUniq seen [] = []"
| "baseSortedUniq seen (v # vs) =
     (if entityId v = seen then baseSortedUniq seen vs
      else v # baseSortedUniq (entityId v) vs)"

definition sortedUniqBy_entityId :: "syncEntity list \<Rightarrow> syncEntity list" where
  "sortedUniqBy_entityId xs =
     (case xs of [] \<Rightarrow> [] | v # vs \<Rightarrow> v # baseSortedUniq (entityId v) vs)"

section \<open>The sync table and the sync key\<close>

text \<open>
  The query is opaque to the engine; it is modelled as the predicate that selects the rows
  it matches.
\<close>

type_synonym query = "syncEntity \<Rightarrow> bool"

text \<open>
  Modelled from the spec: \<open>LocalRequest\<close> with method GET on the sync table
  of src/requests/local.js. Section 4.C: the rows the query matches.
\<close>

definition sync_table_get :: "query \<Rightarrow> sync_state \<Rightarrow> syncEntity list" where
  "sync_table_get query st = filter query (journal st)"

text \<open>
  Modelled from the spec: \<open>LocalRequest\<close> with method POST on the sync table. Section 4.C,
  \<open>enqueue\<close>: the row is persisted; the table keeps the rows in the order they were written.
\<close>

definition sync_table_post :: "syncEntity \<Rightarrow> sync_state \<Rightarrow> sync_state" where
  "sync_table_post row st = st\<lparr>journal := journal st @ [row]\<rparr>"

text \<open>
  Modelled from the spec: \<open>LocalRequest\<close> with method DELETE on the sync table. Section 4.C,
  \<open>drain\<close>: the rows the query matches are removed from the table and returned.
\<close>

definition sync_table_delete :: "query \<Rightarrow> sync_state \<Rightarrow> syncEntity list \<times> sync_state" where
  "sync_table_delete query st =
     (filter query (journal st), st\<lparr>journal := filter (\<lambda>r. \<not> query r) (journal st)\<rparr>)"

text \<open>
  Modelled from the spec: \<open>LocalRequest\<close> with method PUT on the sync table. Section 4.C,
  \<open>reinstate\<close>: the rows are written back as they are, each with the key it has.
\<close>

definition sync_table_put :: "syncEntity list \<Rightarrow> sync_state \<Rightarrow> sync_state" where
  "sync_table_put rows st = st\<lparr>journal := journal st @ rows\<rparr>"

text \<open>
  Modelled from the spec: \<open>getSyncKey\<close> of src/utils/storage.js.
  Section 4.C: the counter is a persisted key/value pair; nothing is stored before the first
  \<open>setSyncKey\<close>.
\<close>

definition getSyncKey :: "sync_state \<Rightarrow> nat option" where
  "getSyncKey st = syncKey st"

text \<open>
  Modelled from the spec: \<open>setSyncKey\<close> of src/utils/storage.js.
  Section 4.C: the counter is read, changed and written back.
\<close>

definition setSyncKey :: "nat \<Rightarrow> sync_state \<Rightarrow> sync_state" where
  "setSyncKey k st = st\<lparr>syncKey := Some k\<rparr>"

section \<open>count\<close>

definition count :: "query \<Rightarrow> sync_state \<Rightarrow> nat" where
  "count query st =
     (let syncEntities = sync_table_get query st;
          syncEntities = orderBy_key_desc syncEntities;
          syncEntities = sortedUniqBy_entityId syncEntities
      in length syncEntities)"

section \<open>createSaveOperation and createDeleteOperation\<close>

text \<open>
  The entities argument is one entity or an array of entities; \<open>None\<close> is a null entry.
\<close>

datatype entities = Single "entity option" | Many "entity option list"

definition castArray :: "entities \<Rightarrow> entity option list" where
  "castArray es = (case es of Single e \<Rightarrow> [e] | Many xs \<Rightarrow> xs)"

definition missing_name :: error where
  "missing_name =
     SyncError ''A name for a collection must be provided to add entities to the sync table.''"

definition missing_id :: error where
  "missing_id =
     SyncError ''An entity is missing an _id. All entities must have an _id in order to be added to the sync table.''"

text \<open>
  The two operations differ in one word, the method written into the row
  (\<open>HttpMethod.POST\<close> against \<open>HttpMethod.DELETE\<close>); \<open>createOperation\<close> is their common text
  with the method as a parameter.

  The body of the callback mapped over the entities. It has no \<open>await\<close>, so it runs to its
  end for every entity while \<open>map\<close> runs, whatever the other entities do: it either throws
  (its promise is rejected) or writes one row. The write is the local POST of the row to
  the sync table.
\<close>

definition enqueue :: "http_method \<Rightarrow> string \<Rightarrow> entity option \<Rightarrow> sync_state \<Rightarrow> error option \<times> sync_state" where
  "enqueue method col ent st =
     (case ent of
        None \<Rightarrow> (None, st)
      | Some e \<Rightarrow>
          let id = e_id e
          in if \<not> truthy id then (Some missing_id, st)
             else
               let k = (case getSyncKey st of None \<Rightarrow> 0 | Some n \<Rightarrow> n);
                   k = k + 1;
                   st1 = setSyncKey k st;
                   syncEntity = \<lparr>key = k, entityId = the id, collection = col,
                                 state_method = method, entity = e\<rparr>
               in (None, sync_table_post syncEntity st1))"

text \<open>
  \<open>Promise.all(map(entities, ...))\<close>: every callback runs, in order; the outcome is the first
  rejection if there is one.
\<close>

fun enqueue_all :: "http_method \<Rightarrow> string \<Rightarrow> entity option list \<Rightarrow> sync_state \<Rightarrow> error option \<times> sync_state" where
  "enqueue_all method col [] st = (None, st)"
| "enqueue_all method col (e # es) st =
     (let (r, st1) = enqueue method col e st;
          (rs, st2) = enqueue_all method col es st1
      in (case r of Some err \<Rightarrow> Some err | None \<Rightarrow> rs, st2))"

definition createOperation :: "http_method \<Rightarrow> string option \<Rightarrow> entities \<Rightarrow> sync_state \<Rightarrow> (error + entities) \<times> sync_state" where
  "createOperation method col es st =
     (if \<not> truthy col then (Inl missing_name, st)
      else
        let (r, st1) = enqueue_all method (the col) (castArray es) st
        in (case r of Some err \<Rightarrow> Inl err | None \<Rightarrow> Inr es, st1))"

definition createSaveOperation :: "string option \<Rightarrow> entities \<Rightarrow> sync_state \<Rightarrow> (error + entities) \<times> sync_state" where
  "createSaveOperation = createOperation POST"

definition createDeleteOperation :: "string option \<Rightarrow> entities \<Rightarrow> sync_state \<Rightarrow> (error + entities) \<times> sync_state" where
  "createDeleteOperation = createOperation DELETE"

section \<open>push\<close>

definition batchSize :: nat where
  "batchSize = 100"

text \<open>
  Modelled from the spec: \<open>LocalRequest\<close> with method PUT on a data collection
  of src/requests/local.js. Sections 4.A and 4.B: a PUT to
  \<open>/ns/app/col/id\<close> upserts the body as the row \<open>id\<close> of collection \<open>col\<close>; the answer is
  the doc as saved.
\<close>

definition local_put :: "string \<Rightarrow> string \<Rightarrow> entity \<Rightarrow> sync_state \<Rightarrow> sync_state" where
  "local_put col i doc st = st\<lparr>local_rows := (local_rows st)((col, i) \<mapsto> doc)\<rparr>"

text \<open>
  Modelled from the spec: \<open>LocalRequest\<close> with method DELETE on a data collection.
  Section 4.A, \<open>removeById\<close>: the row \<open>id\<close> of collection \<open>col\<close> is removed.
\<close>

definition local_delete :: "string \<Rightarrow> string \<Rightarrow> sync_state \<Rightarrow> sync_state" where
  "local_delete col i st = st\<lparr>local_rows := (local_rows st)((col, i) := None)\<rparr>"

text \<open>\<open>NetworkRequest.execute\<close>: the request goes out (it is recorded) and the remote answers.\<close>

definition execute_net :: "network \<Rightarrow> net_request \<Rightarrow> sync_state \<Rightarrow> (error + entity) \<times> sync_state" where
  "execute_net net req st = (net req, st\<lparr>requests := requests st @ [req]\<rparr>)"

text \<open>
  The \<open>try\<close> block of both \<open>catch\<close> handlers: GET the entity from the remote and PUT the
  answer into the local collection; an error is thrown away.
\<close>

definition repair :: "network \<Rightarrow> string \<Rightarrow> string option \<Rightarrow> sync_state \<Rightarrow> sync_state" where
  "repair net col originalId st =
     (let (r, st1) = execute_net net (NetworkRequest GET col (Some (template originalId)) None) st
      in case r of
           Inl _ \<Rightarrow> st1
         | Inr originalEntity \<Rightarrow> local_put col (template originalId) originalEntity st1)"

definition unrecognized :: error where
  "unrecognized = SyncError ''Unable to sync the entity since the method was not recognized.''"

text \<open>
  The callback mapped over a batch, with its \<open>then\<close>/\<open>catch\<close> handler run to the end. The
  first component of the state is \<open>failedSyncEntities\<close>. \<open>entity\<close> is the object the row
  holds, not a copy: deleting its properties changes the row too, which is \<open>se1\<close>.
  \<open>instanceof\<close> is the test for the error's class.
\<close>

definition syncOne :: "network \<Rightarrow> syncEntity \<Rightarrow> syncEntity list \<times> sync_state \<Rightarrow> result \<times> (syncEntity list \<times> sync_state)" where
  "syncOne net se ps =
     (let failed = fst ps; st = snd ps;
          col = collection se;
          ent = entity se;
          metadata_isLocal = isLocal ent;
          originalId = e_id ent;
          method = state_method se
      in if method = DELETE then
           (let (r, st1) = execute_net net (NetworkRequest DELETE col (Some (template originalId)) None) st
            in case r of
                 Inr _ \<Rightarrow> (\<lparr>r_id = originalId, r_entity = ent, r_error = None\<rparr>, (failed, st1))
               | Inl err \<Rightarrow>
                   (let failed1 = (if \<not> (err = NotFoundError) \<or> \<not> (err = InsufficientCredentialsError)
                                   then failed @ [se] else failed);
                        st2 = (if err = InsufficientCredentialsError
                               then repair net col originalId st1 else st1)
                    in (\<lparr>r_id = originalId, r_entity = ent, r_error = Some err\<rparr>, (failed1, st2))))
         else if method = POST \<or> method = PUT then
           (let ent1 = (if metadata_isLocal then strip_local ent else ent);
                se1 = se\<lparr>entity := ent1\<rparr>;
                req = (if metadata_isLocal then NetworkRequest POST col None (Some ent1)
                       else NetworkRequest PUT col (Some (template originalId)) (Some ent));
                (r, st1) = execute_net net req st
            in case r of
                 Inr doc \<Rightarrow>
                   (let st2 = local_put col (template (e_id doc)) doc st1;
                        st3 = (if metadata_isLocal then local_delete col (template originalId) st2
                               else st2)
                    in (\<lparr>r_id = originalId, r_entity = doc, r_error = None\<rparr>, (failed, st3)))
               | Inl err \<Rightarrow>
                   (let failed1 = (if \<not> (err = InsufficientCredentialsError)
                                   then failed @ [se1] else failed);
                        st2 = (if err = InsufficientCredentialsError \<and> \<not> metadata_isLocal
                               then repair net col originalId st1 else st1)
                    in (\<lparr>r_id = originalId, r_entity = ent1, r_error = Some err\<rparr>, (failed1, st2))))
         else (\<lparr>r_id = originalId, r_entity = ent, r_error = Some unrecognized\<rparr>, (failed, st)))"

text \<open>
  \<open>Promise.all(map(batch, ...))\<close>. The records of a batch are in flight together and their
  handlers may finish in any order; the model runs them one after the other in the order
  of the batch, which is one of those orders. The results come back in the order of the
  batch whatever the order of completion.
\<close>

fun syncBatch :: "network \<Rightarrow> syncEntity list \<Rightarrow> syncEntity list \<times> sync_state \<Rightarrow> result list \<times> (syncEntity list \<times> sync_state)" where
  "syncBatch net [] ps = ([], ps)"
| "syncBatch net (se # ses) ps =
     (let (r, ps1) = syncOne net se ps;
          (rs, ps2) = syncBatch net ses ps1
      in (r # rs, ps2))"

text \<open>\<open>batchSync\<close>: the batch is \<open>syncEntities.slice(i, i + batchSize)\<close>.\<close>

function batchSync :: "network \<Rightarrow> syncEntity list \<Rightarrow> nat \<Rightarrow> result list \<Rightarrow> syncEntity list \<times> sync_state \<Rightarrow> result list \<times> (syncEntity list \<times> sync_state)" where
  "batchSync net syncEntities i syncResults ps =
     (let batch = take batchSize (drop i syncEntities);
          i1 = i + batchSize;
          (results, ps1) = syncBatch net batch ps;
          syncResults1 = syncResults @ results
      in if i1 < length syncEntities then batchSync net syncEntities i1 syncResults1 ps1
         else (syncResults1, ps1))"
  by pat_completeness auto
termination
  by (relation "measure (\<lambda>(net, syncEntities, i, syncResults, ps). length syncEntities - i)")
     (auto simp: batchSize_def)

text \<open>
  \<open>push\<close>: the rows are taken out of the sync table, reduced, synced in batches, and the
  failed ones are written back.
\<close>

definition push :: "network \<Rightarrow> query \<Rightarrow> sync_state \<Rightarrow> result list \<times> sync_state" where
  "push net query st =
     (let (syncEntities, st1) = sync_table_delete query st
      in if length syncEntities > 0 then
           (let syncEntities = orderBy_key_desc syncEntities;
                syncEntities = sortedUniqBy_entityId syncEntities;
                (syncResults, failedSyncEntities, st2) = batchSync net syncEntities 0 [] ([], st1)
            in (syncResults, sync_table_put failedSyncEntities st2))
         else ([], st1))"

section \<open>Store: validation of the names (constructor of \<open>Store\<close>)\<close>

text \<open>The character class \<open>[a-zA-Z0-9\-]\<close>.\<close>

definition valid_char :: "char \<Rightarrow> bool" where
  "valid_char c =
     (let n = (of_char c :: nat)
      in (97 \<le> n \<and> n \<le> 122) \<or> (65 \<le> n \<and> n \<le> 90) \<or> (48 \<le> n \<and> n \<le> 57) \<or> n = 45)"

text \<open>
  \<open>validCollectionRegex.test(s)\<close> for \<open>/^[a-zA-Z0-9\-]{1,128}/\<close>: from the start of the
  string the class is matched greedily, at most 128 times; the test succeeds when it was
  matched at least once. Nothing in the expression looks at what follows the match.
\<close>

definition validCollectionRegex_test :: "string \<Rightarrow> bool" where
  "validCollectionRegex_test s = (1 \<le> min 128 (length (takeWhile valid_char s)))"

text \<open>
  The pattern of the specification, \<open>^[A-Za-z0-9-]{1,128}$\<close>: the whole string is between
  1 and 128 characters of the class.
\<close>

definition spec_name_pattern :: "string \<Rightarrow> bool" where
  "spec_name_pattern s = (1 \<le> length s \<and> length s \<le> 128 \<and> list_all valid_char s)"

text \<open>
  A JavaScript value is a string or something else. \<open>dbInfo\<close> is the object the caller
  passes; a property it does not have is \<open>None\<close> and takes the default in \<open>assign\<close>.
\<close>

datatype js_value = JString string | JOther

record dbInfo =
  db_name :: "js_value option"
  db_collection :: "js_value option"

datatype adapter = IndexedDBAdapter | LocalStorageAdapter | WebSQLAdapter

text \<open>
  An entry of \<open>Adapters\<close>: one of the three names of the \<open>StoreAdapter\<close> enumeration, another
  string, or an adapter class.
\<close>

datatype adapter_arg =
    StoreAdapter_IndexedDB
  | StoreAdapter_LocalStorage
  | StoreAdapter_WebSQL
  | OtherString string
  | AdapterClass adapter

datatype store_error = InvalidDatabaseName | InvalidCollectionName | NoSupportedAdapter

record store =
  store_adapter :: adapter
  store_name :: js_value
  store_collection :: js_value

definition isString :: "js_value \<Rightarrow> bool" where
  "isString v = (case v of JString _ \<Rightarrow> True | JOther \<Rightarrow> False)"

definition regex_test_value :: "js_value \<Rightarrow> bool" where
  "regex_test_value v = (case v of JString s \<Rightarrow> validCollectionRegex_test s | JOther \<Rightarrow> False)"

text \<open>The loop over \<open>Adapters\<close>; \<open>isSupported\<close> is what each adapter class answers.\<close>

fun select_adapter :: "(adapter \<Rightarrow> bool) \<Rightarrow> adapter_arg list \<Rightarrow> adapter option" where
  "select_adapter isSupported [] = None"
| "select_adapter isSupported (a # as) =
     (case (case a of
              StoreAdapter_IndexedDB \<Rightarrow> Some IndexedDBAdapter
            | StoreAdapter_LocalStorage \<Rightarrow> Some LocalStorageAdapter
            | StoreAdapter_WebSQL \<Rightarrow> Some WebSQLAdapter
            | OtherString _ \<Rightarrow> None
            | AdapterClass c \<Rightarrow> Some c) of
        None \<Rightarrow> select_adapter isSupported as
      | Some c \<Rightarrow> if isSupported c then Some c else select_adapter isSupported as)"

definition Store :: "(adapter \<Rightarrow> bool) \<Rightarrow> adapter_arg list \<Rightarrow> dbInfo \<Rightarrow> store_error + store" where
  "Store isSupported Adapters info =
     (let name = (case db_name info of None \<Rightarrow> JString ''kinvey'' | Some v \<Rightarrow> v);
          col = (case db_collection info of None \<Rightarrow> JString ''data'' | Some v \<Rightarrow> v)
      in if \<not> isString name \<or> \<not> regex_test_value name then Inl InvalidDatabaseName
         else if \<not> isString col \<or> \<not> regex_test_value col then Inl InvalidCollectionName
         else (case select_adapter isSupported Adapters of
                 None \<Rightarrow> Inl NoSupportedAdapter
               | Some c \<Rightarrow> Inr \<lparr>store_adapter = c, store_name = name, store_collection = col\<rparr>))"

section \<open>The WebSQL adapter: \<open>execute\<close> and \<open>clearAll\<close>\<close>

definition MASTER_TABLE_NAME :: string where
  "MASTER_TABLE_NAME = ''sqlite_master''"

definition dq :: char where
  "dq = CHR 0x22"

definition sq :: char where
  "sq = CHR 0x27"

text \<open>
  A database is its tables by name, each with its rows (key and value). The master table
  is not one of them: it is the list of their names.
\<close>

type_synonym database = "(string \<times> (string \<times> string) list) list"

datatype sql_error = SyntaxError string | ReadOnlyError

text \<open>\<open>String.prototype.replace\<close> with a string pattern: the first occurrence is replaced.\<close>

fun replace_first :: "string \<Rightarrow> string \<Rightarrow> string \<Rightarrow> string" where
  "replace_first pat rep [] = (if pat = [] then rep else [])"
| "replace_first pat rep (c # cs) =
     (if take (length pat) (c # cs) = pat then rep @ drop (length pat) (c # cs)
      else c # replace_first pat rep cs)"

definition strip_prefix :: "string \<Rightarrow> string \<Rightarrow> string option" where
  "strip_prefix p s = (if take (length p) s = p then Some (drop (length p) s) else None)"

definition create_table_sql :: "string \<Rightarrow> string" where
  "create_table_sql escapedTableName =
     ''CREATE TABLE IF NOT EXISTS '' @ escapedTableName @
     '' (key BLOB PRIMARY KEY NOT NULL, value BLOB NOT NULL)''"

definition drop_table_sql :: "string \<Rightarrow> string" where
  "drop_table_sql table = ''DROP TABLE IF EXISTS '' @ [sq] @ table @ [sq]"

text \<open>
  The SQL engine behind \<open>window.openDatabase\<close> is not part of the repository. It is
  modelled on the statements this adapter builds: the listing of the master table by type,
  \<open>DROP TABLE IF EXISTS 'name'\<close> and \<open>CREATE TABLE IF NOT EXISTS "name" (...)\<close>, the last two in
  a write transaction only. Any other text is a syntax error. The answer is
  \<open>rowsAffected\<close> and the \<open>value\<close> column of the rows.
\<close>

definition executeSql :: "bool \<Rightarrow> string \<Rightarrow> string list \<Rightarrow> database \<Rightarrow> sql_error + ((nat \<times> string list) \<times> database)" where
  "executeSql writeTxn sql parameters db =
     (if sql = ''SELECT name AS value FROM '' @ [dq] @ MASTER_TABLE_NAME @ [dq] @ '' WHERE type = ?''
      then Inr ((0, if parameters = [''table''] then map fst db else []), db)
      else case strip_prefix (''DROP TABLE IF EXISTS '' @ [sq]) sql of
             Some rest \<Rightarrow>
               if rest \<noteq> [] \<and> last rest = sq \<and> sq \<notin> set (butlast rest) then
                 (if writeTxn then Inr ((0, []), filter (\<lambda>t. fst t \<noteq> butlast rest) db)
                  else Inl ReadOnlyError)
               else Inl (SyntaxError sql)
           | None \<Rightarrow>
               (case strip_prefix (''CREATE TABLE IF NOT EXISTS '' @ [dq]) sql of
                  Some rest \<Rightarrow>
                    let table = takeWhile (\<lambda>c. c \<noteq> dq) rest
                    in if sql = create_table_sql ([dq] @ table @ [dq]) then
                         (if writeTxn
                          then Inr ((0, []), if table \<in> set (map fst db) then db else db @ [(table, [])])
                          else Inl ReadOnlyError)
                       else Inl (SyntaxError sql)
                | None \<Rightarrow> Inl (SyntaxError sql)))"

record response =
  rowCount :: nat
  result_docs :: "string list"

text \<open>The statements of one transaction, in order; the first error ends it.\<close>

fun run_statements :: "bool \<Rightarrow> (string \<times> string list) list \<Rightarrow> database \<Rightarrow> sql_error + (response list \<times> database)" where
  "run_statements writeTxn [] db = Inr ([], db)"
| "run_statements writeTxn ((sql, parameters) # qs) db =
     (case executeSql writeTxn sql parameters db of
        Inl e \<Rightarrow> Inl e
      | Inr ((n, vals), db1) \<Rightarrow>
          (case run_statements writeTxn qs db1 of
             Inl e \<Rightarrow> Inl e
           | Inr (rs, db2) \<Rightarrow> Inr (\<lparr>rowCount = n, result_docs = vals\<rparr> # rs, db2)))"

text \<open>A promise is fulfilled with a value, rejected with an error, or never settled.\<close>

datatype 'a promise = Fulfilled 'a | Rejected sql_error | Pending

text \<open>
  \<open>execute\<close>. The database handle has \<open>readTransaction\<close> (it is part of the Web SQL
  interface), so the transaction writes exactly when \<open>write\<close> is set. The statements are
  given no error callback: a statement that fails fails the transaction, which is rolled
  back and calls \<open>reject\<close>. The outer \<open>resolve\<close> is called nowhere (the inner promise has a
  \<open>resolve\<close> of its own and the result of \<open>Promise.all\<close> is dropped), so a transaction that
  succeeds leaves the promise unsettled.
\<close>

definition execute :: "string \<Rightarrow> string \<Rightarrow> (string \<times> string list) list \<Rightarrow> bool \<Rightarrow> database \<Rightarrow> response promise \<times> database" where
  "execute dbName tableName sqlQueries write db =
     (let escapedTableName = [dq] @ tableName @ [dq];
          isMaster = (tableName = MASTER_TABLE_NAME);
          writeTxn = write;
          stmts = (if write \<and> \<not> isMaster then [(create_table_sql escapedTableName, [])] else []) @
                  map (\<lambda>(sqlQuery, parameters).
                         (replace_first ''#{table}'' escapedTableName sqlQuery, parameters)) sqlQueries
      in case run_statements writeTxn stmts db of
           Inl e \<Rightarrow> (Rejected e, db)
         | Inr (rs, db1) \<Rightarrow> (Pending, db1))"

text \<open>
  \<open>clearAll\<close>. The filter's expression \<open>/^[a-zA-Z0-9-]{1,128}/\<close> is the one of
  \<open>validCollectionRegex\<close>.
\<close>

definition clearAll :: "string \<Rightarrow> database \<Rightarrow> bool promise \<times> database" where
  "clearAll dbName db =
     (case execute dbName MASTER_TABLE_NAME
             [(''SELECT name AS value FROM #{collection} WHERE type = ?'', [''table''])] False db of
        (Rejected e, db1) \<Rightarrow> (Rejected e, db1)
      | (Pending, db1) \<Rightarrow> (Pending, db1)
      | (Fulfilled response, db1) \<Rightarrow>
          let tables = result_docs response
          in if length tables > 0 then
               (let sqlQueries = map (\<lambda>table. (drop_table_sql table, []))
                                     (filter validCollectionRegex_test tables)
                in case execute dbName MASTER_TABLE_NAME sqlQueries True db1 of
                     (Rejected e, db2) \<Rightarrow> (Rejected e, db2)
                   | (Pending, db2) \<Rightarrow> (Pending, db2)
                   | (Fulfilled _, db2) \<Rightarrow> (Fulfilled True, db2))
             else (Fulfilled True, db1))"

section \<open>Notions used in the statements\<close>

text \<open>The rows \<open>push\<close> dispatches: what draining and reducing leaves of the sync table.\<close>

definition dispatched :: "query \<Rightarrow> sync_state \<Rightarrow> syncEntity list" where
  "dispatched query st = sortedUniqBy_entityId (orderBy_key_desc (filter query (journal st)))"

text \<open>The request \<open>syncOne\<close> builds for a row; a row with another method gets none.\<close>

definition remote_request :: "syncEntity \<Rightarrow> net_request option" where
  "remote_request se =
     (if state_method se = DELETE then
        Some (NetworkRequest DELETE (collection se) (Some (template (e_id (entity se)))) None)
      else if state_method se = POST \<or> state_method se = PUT then
        Some (if isLocal (entity se)
              then NetworkRequest POST (collection se) None (Some (strip_local (entity se)))
              else NetworkRequest PUT (collection se) (Some (template (e_id (entity se))))
                     (Some (entity se)))
      else None)"

definition empty_state :: sync_state where
  "empty_state = \<lparr>journal = [], syncKey = None, local_rows = Map.empty, requests = []\<rparr>"

text \<open>
  What \<open>syncOne\<close> returns for a row, the rows it adds to \<open>failedSyncEntities\<close> and the
  requests it sends. None of them depends on the state it starts from.
\<close>

definition resultOf :: "network \<Rightarrow> syncEntity \<Rightarrow> result" where
  "resultOf net se = fst (syncOne net se ([], empty_state))"

definition failedOf :: "network \<Rightarrow> syncEntity \<Rightarrow> syncEntity list" where
  "failedOf net se = fst (snd (syncOne net se ([], empty_state)))"

definition sentOf :: "network \<Rightarrow> syncEntity \<Rightarrow> net_request list" where
  "sentOf net se = requests (snd (snd (syncOne net se ([], empty_state))))"

definition invalid_entry :: "entity option \<Rightarrow> bool" where
  "invalid_entry x = (case x of None \<Rightarrow> False | Some e \<Rightarrow> \<not> truthy (e_id e))"


section \<open>Example inputs\<close>

definition all_rows :: query where
  "all_rows r = True"

definition ent_a :: entity where
  "ent_a = \<lparr>e_id = Some ''a'', e_kmd = None, e_props = [(''v'', ''1'')]\<rparr>"

definition ent_b :: entity where
  "ent_b = \<lparr>e_id = Some ''b'', e_kmd = None, e_props = []\<rparr>"

definition ent_e :: entity where
  "ent_e = \<lparr>e_id = Some ''e'', e_kmd = None, e_props = []\<rparr>"

definition ent_e_remote :: entity where
  "ent_e_remote = \<lparr>e_id = Some ''e'', e_kmd = None, e_props = [(''v'', ''9'')]\<rparr>"

definition ent_noid :: entity where
  "ent_noid = \<lparr>e_id = None, e_kmd = None, e_props = [(''v'', ''2'')]\<rparr>"

definition ent_local :: entity where
  "ent_local = \<lparr>e_id = Some ''local_ab'',
                 e_kmd = Some \<lparr>kmd_local = Some True, kmd_rest = []\<rparr>,
                 e_props = [(''v'', ''2'')]\<rparr>"

definition ent_srv7 :: entity where
  "ent_srv7 = \<lparr>e_id = Some ''srv7'', e_kmd = None, e_props = [(''v'', ''2'')]\<rparr>"

definition row_delete :: "entity \<Rightarrow> syncEntity" where
  "row_delete e = \<lparr>key = 1, entityId = template (e_id e), collection = ''books'',
                    state_method = DELETE, entity = e\<rparr>"

definition row_save :: "entity \<Rightarrow> syncEntity" where
  "row_save e = \<lparr>key = 1, entityId = template (e_id e), collection = ''books'',
                  state_method = POST, entity = e\<rparr>"

definition state_with :: "syncEntity list \<Rightarrow> sync_state" where
  "state_with rows =
     \<lparr>journal = rows, syncKey = Some (length rows), local_rows = Map.empty, requests = []\<rparr>"

text \<open>A remote that refuses every write with 401/403 and answers a GET with \<open>ent_e_remote\<close>.\<close>

definition net_403 :: network where
  "net_403 req =
     (case req of NetworkRequest m col i body \<Rightarrow>
        if m = GET then Inr ent_e_remote else Inl InsufficientCredentialsError)"

text \<open>A remote that answers 404 to everything.\<close>

definition net_404 :: network where
  "net_404 req = Inl NotFoundError"

text \<open>A remote that answers 500 to everything.\<close>

definition net_500 :: network where
  "net_500 req = Inl (OtherError ''500'')"

text \<open>A remote that answers every POST with \<open>ent_srv7\<close> and fails everything else.\<close>

definition net_create :: network where
  "net_create req =
     (case req of NetworkRequest m col i body \<Rightarrow>
        if m = POST then Inr ent_srv7 else Inl (OtherError ''500''))"

text \<open>The sync table after saving \<open>a\<close>, then \<open>b\<close>, then \<open>a\<close> again, from an empty one.\<close>

definition state_aba :: sync_state where
  "state_aba =
     snd (createSaveOperation (Some ''books'') (Single (Some ent_a))
       (snd (createSaveOperation (Some ''books'') (Single (Some ent_b))
         (snd (createSaveOperation (Some ''books'') (Single (Some ent_a)) empty_state)))))"

definition row_keyed :: "nat \<Rightarrow> http_method \<Rightarrow> entity \<Rightarrow> syncEntity" where
  "row_keyed k m e = \<lparr>key = k, entityId = template (e_id e), collection = ''books'',
                       state_method = m, entity = e\<rparr>"

text \<open>
  Three pending rows (an update of \<open>a\<close>, the creation of \<open>local_ab\<close>, a deletion of \<open>b\<close>) and
  the local rows of \<open>a\<close> and \<open>local_ab\<close>.
\<close>

definition state_three :: sync_state where
  "state_three =
     \<lparr>journal = [row_keyed 1 PUT ent_a, row_keyed 2 POST ent_local, row_keyed 3 DELETE ent_b],
      syncKey = Some 3,
      local_rows = [(''books'', ''a'') \<mapsto> ent_a, (''books'', ''local_ab'') \<mapsto> ent_local],
      requests = []\<rparr>"


section \<open>Enqueueing: validation\<close>

lemma enqueue_fst: "fst (enqueue m col x st) = (if invalid_entry x then Some missing_id else None)"
  by (auto simp: enqueue_def invalid_entry_def Let_def split: option.splits)

lemma enqueue_all_fst:
  "fst (enqueue_all m col xs st) = (if \<exists>x\<in>set xs. invalid_entry x then Some missing_id else None)"
proof (induction xs arbitrary: st)
  case Nil
  then show ?case by simp
next
  case (Cons x xs)
  obtain r st1 where e: "enqueue m col x st = (r, st1)"
    by (cases "enqueue m col x st")
  have r: "r = (if invalid_entry x then Some missing_id else None)"
    using enqueue_fst [of m col x st] e by simp
  obtain rs st2 where a: "enqueue_all m col xs st1 = (rs, st2)"
    by (cases "enqueue_all m col xs st1")
  have rs: "rs = (if \<exists>x\<in>set xs. invalid_entry x then Some missing_id else None)"
    using Cons.IH [of st1] a by simp
  show ?case using e a r rs by (auto split: option.splits)
qed

lemma createOperation_missing_name:
  "\<not> truthy col \<Longrightarrow> createOperation m col es st = (Inl missing_name, st)"
  by (simp add: createOperation_def)

lemma createOperation_missing_id:
  assumes "truthy col" and "\<exists>x\<in>set (castArray es). invalid_entry x"
  shows "fst (createOperation m col es st) = Inl missing_id"
proof -
  obtain r st1 where a: "enqueue_all m (the col) (castArray es) st = (r, st1)"
    by (cases "enqueue_all m (the col) (castArray es) st")
  have "r = Some missing_id"
    using enqueue_all_fst [of m "the col" "castArray es" st] a assms(2) by simp
  then show ?thesis using a assms(1) by (simp add: createOperation_def)
qed

text \<open>
  C7. \<open>createSaveOperation\<close> and \<open>createDeleteOperation\<close> throw a \<open>SyncError\<close> when the
  collection name is missing, and then the state is the one they started from: no row is
  written to the sync table. With a collection name, they throw a \<open>SyncError\<close> when one of
  the entities given is not null and has no \<open>_id\<close>.
\<close>

theorem enqueue_validation:
  "(\<not> truthy col \<longrightarrow>
      createSaveOperation col es st = (Inl missing_name, st) \<and>
      createDeleteOperation col es st = (Inl missing_name, st)) \<and>
   (truthy col \<and> (\<exists>e. Some e \<in> set (castArray es) \<and> \<not> truthy (e_id e)) \<longrightarrow>
      fst (createSaveOperation col es st) = Inl missing_id \<and>
      fst (createDeleteOperation col es st) = Inl missing_id)"
proof -
  have "\<exists>x\<in>set (castArray es). invalid_entry x"
    if "Some e \<in> set (castArray es)" "\<not> truthy (e_id e)" for e
    using that by (auto simp: invalid_entry_def intro!: bexI [of _ "Some e"])
  then show ?thesis
    by (auto simp: createSaveOperation_def createDeleteOperation_def
        createOperation_missing_name createOperation_missing_id)
qed

theorem enqueue_validation_witness:
  "\<not> truthy None \<and>
   createSaveOperation None (Single (Some ent_a)) empty_state = (Inl missing_name, empty_state) \<and>
   createDeleteOperation None (Single (Some ent_a)) empty_state = (Inl missing_name, empty_state) \<and>
   truthy (Some ''books'') \<and>
   Some ent_noid \<in> set (castArray (Many [Some ent_a, None, Some ent_noid])) \<and>
   \<not> truthy (e_id ent_noid) \<and>
   fst (createSaveOperation (Some ''books'') (Many [Some ent_a, None, Some ent_noid]) empty_state)
     = Inl missing_id \<and>
   fst (createDeleteOperation (Some ''books'') (Many [Some ent_a, None, Some ent_noid]) empty_state)
     = Inl missing_id"
proof -
  have f: "\<not> truthy None" by (simp add: truthy_def)
  have t: "truthy (Some ''books'')" by (simp add: truthy_def)
  have m: "Some ent_noid \<in> set (castArray (Many [Some ent_a, None, Some ent_noid]))"
    by (simp add: castArray_def)
  have n: "\<not> truthy (e_id ent_noid)" by (simp add: truthy_def ent_noid_def)
  show ?thesis
    using f t m n
      enqueue_validation [of None "Single (Some ent_a)" empty_state]
      enqueue_validation [of "Some ''books''" "Many [Some ent_a, None, Some ent_noid]" empty_state]
    by blast
qed

section \<open>push: structure\<close>

declare batchSync.simps [simp del]

lemma journal_repair: "journal (repair net col i st) = journal st"
  by (simp add: repair_def execute_net_def local_put_def split: sum.splits)

lemma requests_repair:
  "requests (repair net col i st) = requests st @ [NetworkRequest GET col (Some (template i)) None]"
  by (simp add: repair_def execute_net_def local_put_def split: sum.splits)

lemma syncOne_shape:
  "\<exists>st'. syncOne net se (f, st) = (resultOf net se, f @ failedOf net se, st') \<and>
         journal st' = journal st"
  unfolding syncOne_def resultOf_def failedOf_def
  by (simp add: Let_def execute_net_def local_put_def local_delete_def journal_repair
      split: sum.splits)

lemma syncOne_requests:
  "requests (snd (snd (syncOne net se (f, st)))) = requests st @ sentOf net se"
  unfolding syncOne_def sentOf_def
  by (simp add: Let_def execute_net_def local_put_def local_delete_def requests_repair
      empty_state_def split: sum.splits)

lemma syncBatch_shape:
  "\<exists>st'. syncBatch net ses (f, st) =
           (map (resultOf net) ses, f @ concat (map (failedOf net) ses), st') \<and>
         journal st' = journal st"
proof (induction ses arbitrary: f st)
  case Nil
  then show ?case by simp
next
  case (Cons se ses)
  obtain st1 where 1: "syncOne net se (f, st) = (resultOf net se, f @ failedOf net se, st1)"
    and j1: "journal st1 = journal st"
    using syncOne_shape by blast
  obtain st2 where 2: "syncBatch net ses (f @ failedOf net se, st1) =
      (map (resultOf net) ses, (f @ failedOf net se) @ concat (map (failedOf net) ses), st2)"
    and j2: "journal st2 = journal st1"
    using Cons.IH by blast
  show ?case using 1 2 j1 j2 by simp
qed

lemma syncBatch_requests:
  "requests (snd (snd (syncBatch net ses (f, st)))) = requests st @ concat (map (sentOf net) ses)"
proof (induction ses arbitrary: f st)
  case Nil
  then show ?case by simp
next
  case (Cons se ses)
  obtain r f1 st1 where 1: "syncOne net se (f, st) = (r, f1, st1)"
    by (cases "syncOne net se (f, st)") auto
  have "requests st1 = requests st @ sentOf net se"
    using syncOne_requests [of net se f st] 1 by simp
  then show ?case using 1 Cons.IH [of f1 st1] by (simp add: split_beta)
qed

lemma syncBatch_append:
  "syncBatch net (xs @ ys) ps =
     (let (rs, ps1) = syncBatch net xs ps; (rs', ps2) = syncBatch net ys ps1 in (rs @ rs', ps2))"
  by (induction xs arbitrary: ps) (simp_all add: split_beta Let_def)

text \<open>The batches together are one pass over the rows from index \<open>i\<close> on.\<close>

lemma batchSync_eq:
  "batchSync net ses i acc ps =
     (acc @ fst (syncBatch net (drop i ses) ps), snd (syncBatch net (drop i ses) ps))"
proof (induction net ses i acc ps rule: batchSync.induct)
  case (1 net ses i acc ps)
  show ?case
  proof (cases "i + batchSize < length ses")
    case True
    have d: "drop i ses = take batchSize (drop i ses) @ drop (i + batchSize) ses"
      by (metis add.commute append_take_drop_id drop_drop)
    obtain rs ps1 where b: "syncBatch net (take batchSize (drop i ses)) ps = (rs, ps1)"
      by (cases "syncBatch net (take batchSize (drop i ses)) ps")
    have ih: "batchSync net ses (i + batchSize) (acc @ rs) ps1 =
        ((acc @ rs) @ fst (syncBatch net (drop (i + batchSize) ses) ps1),
         snd (syncBatch net (drop (i + batchSize) ses) ps1))"
      using "1.IH" [OF refl refl b [symmetric] refl refl True] .
    have "syncBatch net (drop i ses) ps =
        (rs @ fst (syncBatch net (drop (i + batchSize) ses) ps1),
         snd (syncBatch net (drop (i + batchSize) ses) ps1))"
      by (subst d) (simp add: syncBatch_append b split_beta)
    then show ?thesis
      using True b ih by (subst batchSync.simps) (simp add: Let_def)
  next
    case False
    then have "take batchSize (drop i ses) = drop i ses" by simp
    then show ?thesis
      using False by (subst batchSync.simps) (simp add: Let_def split_beta)
  qed
qed

lemma dispatched_Nil: "filter query (journal st) = [] \<Longrightarrow> dispatched query st = []"
  by (simp add: dispatched_def orderBy_key_desc_def sortedUniqBy_entityId_def)

lemma push_unfold:
  assumes "filter query (journal st) \<noteq> []"
    and "syncBatch net (dispatched query st)
           ([], st\<lparr>journal := filter (\<lambda>r. \<not> query r) (journal st)\<rparr>) = (rs, f, st')"
  shows "push net query st = (rs, st'\<lparr>journal := journal st' @ f\<rparr>)"
  using assms
  by (simp add: push_def sync_table_delete_def sync_table_put_def batchSync_eq
      dispatched_def [symmetric])

lemma push_eq:
  "\<exists>st'. push net query st =
     (map (resultOf net) (dispatched query st),
      st'\<lparr>journal := filter (\<lambda>r. \<not> query r) (journal st) @
                       concat (map (failedOf net) (dispatched query st))\<rparr>)"
proof (cases "filter query (journal st) = []")
  case True
  then have "push net query st = ([], st\<lparr>journal := filter (\<lambda>r. \<not> query r) (journal st)\<rparr>)"
    by (simp add: push_def sync_table_delete_def)
  then show ?thesis using dispatched_Nil [OF True] by auto
next
  case False
  let ?st1 = "st\<lparr>journal := filter (\<lambda>r. \<not> query r) (journal st)\<rparr>"
  obtain st' where b: "syncBatch net (dispatched query st) ([], ?st1) =
      (map (resultOf net) (dispatched query st),
       [] @ concat (map (failedOf net) (dispatched query st)), st')"
    and j: "journal st' = journal ?st1"
    using syncBatch_shape by blast
  show ?thesis using push_unfold [OF False b] j by auto
qed

lemma push_results: "fst (push net query st) = map (resultOf net) (dispatched query st)"
  using push_eq [of net query st] by auto

lemma push_journal:
  "journal (snd (push net query st)) =
     filter (\<lambda>r. \<not> query r) (journal st) @ concat (map (failedOf net) (dispatched query st))"
  using push_eq [of net query st] by auto

lemma push_requests:
  "requests (snd (push net query st)) =
     requests st @ concat (map (sentOf net) (dispatched query st))"
proof (cases "filter query (journal st) = []")
  case True
  then show ?thesis
    using dispatched_Nil [OF True] by (simp add: push_def sync_table_delete_def)
next
  case False
  let ?st1 = "st\<lparr>journal := filter (\<lambda>r. \<not> query r) (journal st)\<rparr>"
  obtain rs f st' where b: "syncBatch net (dispatched query st) ([], ?st1) = (rs, f, st')"
    by (cases "syncBatch net (dispatched query st) ([], ?st1)") auto
  have "requests st' = requests st @ concat (map (sentOf net) (dispatched query st))"
    using syncBatch_requests [of net "dispatched query st" "[]" ?st1] b by simp
  then show ?thesis using push_unfold [OF False b] by simp
qed

lemma in_concat_map: "x \<in> set xs \<Longrightarrow> y \<in> set (g x) \<Longrightarrow> y \<in> set (concat (map g xs))"
  by auto

section \<open>push: one row\<close>

lemma sentOf_first:
  "remote_request se = Some req \<Longrightarrow> \<exists>rest. sentOf net se = req # rest"
  unfolding syncOne_def sentOf_def remote_request_def
  by (auto simp: Let_def execute_net_def local_put_def local_delete_def requests_repair
      empty_state_def split: sum.splits if_splits)

lemma failedOf_delete:
  assumes "state_method se = DELETE"
    and "net (NetworkRequest DELETE (collection se) (Some (template (e_id (entity se)))) None)
           = Inl err"
  shows "failedOf net se = [se]"
  using assms unfolding failedOf_def syncOne_def
  by (auto simp: Let_def execute_net_def)

lemma resultOf_delete:
  assumes "state_method se = DELETE"
    and "net (NetworkRequest DELETE (collection se) (Some (template (e_id (entity se)))) None)
           = Inl err"
  shows "resultOf net se = \<lparr>r_id = e_id (entity se), r_entity = entity se, r_error = Some err\<rparr>"
  using assms unfolding resultOf_def syncOne_def
  by (auto simp: Let_def execute_net_def)

lemma failedOf_save:
  assumes "state_method se = POST \<or> state_method se = PUT"
    and "remote_request se = Some req" and "net req = Inl err"
  shows "failedOf net se =
     (if err = InsufficientCredentialsError then []
      else [se\<lparr>entity := (if isLocal (entity se) then strip_local (entity se) else entity se)\<rparr>])"
  using assms unfolding failedOf_def syncOne_def remote_request_def
  by (auto simp: Let_def execute_net_def)

lemma resultOf_save:
  assumes "state_method se = POST \<or> state_method se = PUT"
    and "remote_request se = Some req" and "net req = Inl err"
  shows "resultOf net se =
     \<lparr>r_id = e_id (entity se),
      r_entity = (if isLocal (entity se) then strip_local (entity se) else entity se),
      r_error = Some err\<rparr>"
  using assms unfolding resultOf_def syncOne_def remote_request_def
  by (auto simp: Let_def execute_net_def)


lemma strip_local_eq:
  assumes "isLocal e"
  shows "\<exists>k. e_kmd e = Some k \<and>
           strip_local e =
             \<lparr>e_id = None, e_kmd = Some \<lparr>kmd_local = None, kmd_rest = kmd_rest k\<rparr>,
              e_props = e_props e\<rparr>"
proof -
  obtain k where k: "e_kmd e = Some k"
    using assms by (auto simp: isLocal_def split: option.splits)
  have "k\<lparr>kmd_local := None\<rparr> = \<lparr>kmd_local = None, kmd_rest = kmd_rest k\<rparr>"
    by (cases k) simp
  then have "strip_local e =
      \<lparr>e_id = None, e_kmd = Some \<lparr>kmd_local = None, kmd_rest = kmd_rest k\<rparr>, e_props = e_props e\<rparr>"
    using k by (cases e) (simp add: strip_local_def)
  then show ?thesis using k by blast
qed





text \<open>For a local-marked row the POST is all that is sent, whatever the remote answers.\<close>

lemma syncOne_local_requests:
  assumes "state_method se = POST \<or> state_method se = PUT" and "isLocal (entity se)"
  shows "requests (snd (snd (syncOne net se (f, st)))) =
           requests st @ [NetworkRequest POST (collection se) None (Some (strip_local (entity se)))]"
  using assms unfolding syncOne_def
  by (auto simp: Let_def execute_net_def local_put_def local_delete_def split: sum.splits)

lemmas push_eval =
  push_def sync_table_delete_def sync_table_put_def syncOne_def Let_def execute_net_def
  repair_def local_put_def local_delete_def orderBy_key_desc_def sortedUniqBy_entityId_def
  batchSync_eq state_with_def row_delete_def row_save_def all_rows_def template_def
  isLocal_def strip_local_def

lemmas row_eval =
  dispatched_def remote_request_def orderBy_key_desc_def sortedUniqBy_entityId_def
  state_with_def row_delete_def row_save_def all_rows_def template_def isLocal_def
  strip_local_def

section \<open>push: outcomes of a failed or successful dispatch\<close>

text \<open>
  C1 (evaluation at the failing input). A DELETE row for the server-known entity \<open>e\<close>; the
  remote refuses the DELETE with \<open>InsufficientCredentialsError\<close>. The result carries the
  error and the repair is made, but the row is back in the sync table after \<open>push\<close>: the
  test before \<open>failedSyncEntities.push\<close> in the DELETE handler holds for every error.
\<close>

theorem push_delete_403_reinstated:
  "push net_403 all_rows (state_with [row_delete ent_e]) =
     ([\<lparr>r_id = Some ''e'', r_entity = ent_e, r_error = Some InsufficientCredentialsError\<rparr>],
      \<lparr>journal = [row_delete ent_e], syncKey = Some 1,
       local_rows = [(''books'', ''e'') \<mapsto> ent_e_remote],
       requests = [NetworkRequest DELETE ''books'' (Some ''e'') None,
                   NetworkRequest GET ''books'' (Some ''e'') None]\<rparr>)"
  by (simp add: push_eval net_403_def ent_e_def)

text \<open>
  C2 as stated fails: a DELETE row for \<open>b\<close> whose remote DELETE answers \<open>NotFoundError\<close>
  gets a result that carries the error.
\<close>

theorem push_delete_404_counterexample:
  "fst (push net_404 all_rows (state_with [row_delete ent_b])) =
     [\<lparr>r_id = Some ''b'', r_entity = ent_b, r_error = Some NotFoundError\<rparr>]"
  by (simp add: push_eval net_404_def ent_b_def)

text \<open>
  C2, amended. For every dispatched row with method DELETE whose remote DELETE fails with
  \<open>NotFoundError\<close>, the results of \<open>push\<close> hold the entry for that row with its original
  \<open>_id\<close>, its entity and the \<open>NotFoundError\<close>.
\<close>

theorem push_delete_not_found_result:
  assumes "se \<in> set (dispatched query st)"
    and "state_method se = DELETE"
    and "net (NetworkRequest DELETE (collection se) (Some (template (e_id (entity se)))) None)
           = Inl NotFoundError"
  shows "\<lparr>r_id = e_id (entity se), r_entity = entity se, r_error = Some NotFoundError\<rparr>
           \<in> set (fst (push net query st))"
proof -
  have "resultOf net se =
      \<lparr>r_id = e_id (entity se), r_entity = entity se, r_error = Some NotFoundError\<rparr>"
    using resultOf_delete [of se net NotFoundError] assms(2,3) by simp
  then show ?thesis
    using assms(1) by (auto simp: push_results intro!: image_eqI [of _ _ se])
qed

theorem push_delete_not_found_result_witness:
  "row_delete ent_b \<in> set (dispatched all_rows (state_with [row_delete ent_b])) \<and>
   state_method (row_delete ent_b) = DELETE \<and>
   net_404 (NetworkRequest DELETE (collection (row_delete ent_b))
              (Some (template (e_id (entity (row_delete ent_b))))) None) = Inl NotFoundError \<and>
   \<lparr>r_id = e_id (entity (row_delete ent_b)), r_entity = entity (row_delete ent_b),
    r_error = Some NotFoundError\<rparr>
     \<in> set (fst (push net_404 all_rows (state_with [row_delete ent_b])))"
proof -
  have d: "row_delete ent_b \<in> set (dispatched all_rows (state_with [row_delete ent_b]))"
    by (simp add: row_eval)
  have m: "state_method (row_delete ent_b) = DELETE"
    by (simp add: row_delete_def)
  have n: "net_404 (NetworkRequest DELETE (collection (row_delete ent_b))
              (Some (template (e_id (entity (row_delete ent_b))))) None) = Inl NotFoundError"
    by (simp add: net_404_def)
  show ?thesis
    using d m n push_delete_not_found_result [where net = net_404, OF d m n] by simp
qed

text \<open>
  C3 (evaluation at the failing input). A DELETE row for the local-marked entity
  \<open>local_ab\<close>; the remote refuses the DELETE with \<open>InsufficientCredentialsError\<close>. The
  repair GET goes out all the same: the DELETE handler does not ask \<open>metadata.isLocal()\<close>.
\<close>

theorem push_delete_local_403_issues_get:
  "isLocal ent_local \<and>
   requests (snd (push net_403 all_rows (state_with [row_delete ent_local]))) =
     [NetworkRequest DELETE ''books'' (Some ''local_ab'') None,
      NetworkRequest GET ''books'' (Some ''local_ab'') None]"
  by (simp add: push_eval net_403_def ent_local_def)

text \<open>
  C4. For every dispatched row whose remote request fails with an error that is neither
  \<open>NotFoundError\<close> nor \<open>InsufficientCredentialsError\<close>, that request is among those \<open>push\<close>
  sent and the sync table after \<open>push\<close> holds the row again with the key, \<open>entityId\<close>,
  collection and method it had. The row comes back exactly as it was drained, except when
  its method is POST or PUT and its entity is local-marked: then it is the drained row with
  its entity stripped, and the stripped entity is the drained one without \<open>_id\<close> and
  without \<open>_kmd.local\<close>, every other property kept.
\<close>

theorem push_reinstates_other_failures:
  assumes "se \<in> set (dispatched query st)"
    and "remote_request se = Some req"
    and "net req = Inl err"
    and "err \<noteq> NotFoundError" and "err \<noteq> InsufficientCredentialsError"
  shows "req \<in> set (requests (snd (push net query st))) \<and>
         (\<exists>r\<in>set (journal (snd (push net query st))).
            r = (if (state_method se = POST \<or> state_method se = PUT) \<and> isLocal (entity se)
                 then se\<lparr>entity := strip_local (entity se)\<rparr> else se) \<and>
            key r = key se \<and> entityId r = entityId se \<and> collection r = collection se \<and>
            state_method r = state_method se) \<and>
         (isLocal (entity se) \<longrightarrow>
            (\<exists>k. e_kmd (entity se) = Some k \<and>
                 strip_local (entity se) =
                   \<lparr>e_id = None, e_kmd = Some \<lparr>kmd_local = None, kmd_rest = kmd_rest k\<rparr>,
                    e_props = e_props (entity se)\<rparr>))"
proof -
  let ?r = "if (state_method se = POST \<or> state_method se = PUT) \<and> isLocal (entity se)
            then se\<lparr>entity := strip_local (entity se)\<rparr> else se"
  obtain rest where "sentOf net se = req # rest"
    using sentOf_first [OF assms(2)] by blast
  then have "req \<in> set (concat (map (sentOf net) (dispatched query st)))"
    using in_concat_map [OF assms(1), of req "sentOf net"] by simp
  then have sent: "req \<in> set (requests (snd (push net query st)))"
    by (simp add: push_requests)
  have "failedOf net se = [?r]"
  proof (cases "state_method se = DELETE")
    case True
    then have "req = NetworkRequest DELETE (collection se) (Some (template (e_id (entity se)))) None"
      using assms(2) by (simp add: remote_request_def)
    then have "failedOf net se = [se]"
      using failedOf_delete True assms(3) by simp
    then show ?thesis using True by simp
  next
    case False
    then have m: "state_method se = POST \<or> state_method se = PUT"
      using assms(2) by (auto simp: remote_request_def split: if_splits)
    have "failedOf net se =
        [se\<lparr>entity := (if isLocal (entity se) then strip_local (entity se) else entity se)\<rparr>]"
      using failedOf_save [of se req net err] m assms(2,3,5) by simp
    then show ?thesis using m by auto
  qed
  then have "?r \<in> set (concat (map (failedOf net) (dispatched query st)))"
    using in_concat_map [OF assms(1), of ?r "failedOf net"] by simp
  then have inj: "?r \<in> set (journal (snd (push net query st)))"
    by (simp add: push_journal)
  have same: "key ?r = key se \<and> entityId ?r = entityId se \<and> collection ?r = collection se \<and>
      state_method ?r = state_method se"
    by simp
  have "\<exists>r\<in>set (journal (snd (push net query st))).
          r = ?r \<and> key r = key se \<and> entityId r = entityId se \<and> collection r = collection se \<and>
          state_method r = state_method se"
    using inj same by blast
  then show ?thesis using sent strip_local_eq [of "entity se"] by blast
qed

theorem push_reinstates_other_failures_witness:
  "row_save ent_a \<in> set (dispatched all_rows (state_with [row_save ent_a])) \<and>
   remote_request (row_save ent_a) = Some (NetworkRequest PUT ''books'' (Some ''a'') (Some ent_a)) \<and>
   net_500 (NetworkRequest PUT ''books'' (Some ''a'') (Some ent_a)) = Inl (OtherError ''500'') \<and>
   OtherError ''500'' \<noteq> NotFoundError \<and>
   OtherError ''500'' \<noteq> InsufficientCredentialsError \<and>
   NetworkRequest PUT ''books'' (Some ''a'') (Some ent_a)
     \<in> set (requests (snd (push net_500 all_rows (state_with [row_save ent_a])))) \<and>
   row_save ent_a \<in> set (journal (snd (push net_500 all_rows (state_with [row_save ent_a])))) \<and>
   row_keyed 2 POST ent_local \<in> set (dispatched all_rows state_three) \<and>
   remote_request (row_keyed 2 POST ent_local) =
     Some (NetworkRequest POST ''books'' None (Some (strip_local ent_local))) \<and>
   net_500 (NetworkRequest POST ''books'' None (Some (strip_local ent_local)))
     = Inl (OtherError ''500'') \<and>
   isLocal (entity (row_keyed 2 POST ent_local)) \<and>
   (row_keyed 2 POST ent_local)\<lparr>entity := strip_local ent_local\<rparr>
     \<in> set (journal (snd (push net_500 all_rows state_three))) \<and>
   strip_local ent_local =
     \<lparr>e_id = None, e_kmd = Some \<lparr>kmd_local = None, kmd_rest = []\<rparr>, e_props = [(''v'', ''2'')]\<rparr>"
proof -
  have d: "row_save ent_a \<in> set (dispatched all_rows (state_with [row_save ent_a]))"
    by (simp add: row_eval)
  have r: "remote_request (row_save ent_a) =
      Some (NetworkRequest PUT ''books'' (Some ''a'') (Some ent_a))"
    by (simp add: row_eval ent_a_def)
  have n: "net_500 (NetworkRequest PUT ''books'' (Some ''a'') (Some ent_a)) = Inl (OtherError ''500'')"
    by (simp add: net_500_def)
  have e1: "OtherError ''500'' \<noteq> NotFoundError" by simp
  have e2: "OtherError ''500'' \<noteq> InsufficientCredentialsError" by simp
  have nl: "\<not> isLocal (entity (row_save ent_a))"
    by (simp add: row_save_def isLocal_def ent_a_def)
  have a: "NetworkRequest PUT ''books'' (Some ''a'') (Some ent_a)
             \<in> set (requests (snd (push net_500 all_rows (state_with [row_save ent_a])))) \<and>
           row_save ent_a \<in> set (journal (snd (push net_500 all_rows (state_with [row_save ent_a]))))"
    using nl push_reinstates_other_failures
      [where net = net_500 and err = "OtherError ''500''", OF d r n e1 e2]
    by simp
  have d2: "row_keyed 2 POST ent_local \<in> set (dispatched all_rows state_three)"
    by (simp add: row_eval state_three_def row_keyed_def ent_a_def ent_b_def ent_local_def)
  have r2: "remote_request (row_keyed 2 POST ent_local) =
      Some (NetworkRequest POST ''books'' None (Some (strip_local ent_local)))"
    by (simp add: remote_request_def row_keyed_def isLocal_def ent_local_def)
  have n2: "net_500 (NetworkRequest POST ''books'' None (Some (strip_local ent_local)))
      = Inl (OtherError ''500'')"
    by (simp add: net_500_def)
  have l2: "isLocal (entity (row_keyed 2 POST ent_local))"
    by (simp add: row_keyed_def isLocal_def ent_local_def)
  have m2: "state_method (row_keyed 2 POST ent_local) = POST"
    by (simp add: row_keyed_def)
  have en: "entity (row_keyed 2 POST ent_local) = ent_local"
    by (simp add: row_keyed_def)
  have k2: "e_kmd ent_local = Some \<lparr>kmd_local = Some True, kmd_rest = []\<rparr>"
    and p2: "e_props ent_local = [(''v'', ''2'')]"
    by (simp_all add: ent_local_def)
  have b: "(row_keyed 2 POST ent_local)\<lparr>entity := strip_local ent_local\<rparr>
             \<in> set (journal (snd (push net_500 all_rows state_three))) \<and>
           strip_local ent_local =
             \<lparr>e_id = None, e_kmd = Some \<lparr>kmd_local = None, kmd_rest = []\<rparr>,
              e_props = [(''v'', ''2'')]\<rparr>"
    using l2 m2 en k2 p2 push_reinstates_other_failures
      [where net = net_500 and err = "OtherError ''500''", OF d2 r2 n2 e1 e2]
    by auto
  show ?thesis using d r n e1 e2 a d2 r2 n2 l2 b by blast
qed



text \<open>
  C10. For every dispatched row with method POST or PUT whose entity is local-marked: the
  stripped entity is the entity of the row without \<open>_id\<close> and without \<open>_kmd.local\<close>, every
  other property kept; from any state, syncing the row sends the POST with the stripped
  entity as its body and nothing else, whatever the remote answers, and that POST is among
  the requests \<open>push\<close> sent; and when the POST fails with an error other than
  \<open>InsufficientCredentialsError\<close>, the row written back to the sync table is the drained
  row holding the stripped entity, and the result that carries the error holds the
  stripped entity too.
\<close>

theorem push_local_create_failure_keeps_stripped_entity:
  assumes "se \<in> set (dispatched query st)"
    and "state_method se = POST \<or> state_method se = PUT"
    and "isLocal (entity se)"
  shows "(\<exists>k. e_kmd (entity se) = Some k \<and>
              strip_local (entity se) =
                \<lparr>e_id = None, e_kmd = Some \<lparr>kmd_local = None, kmd_rest = kmd_rest k\<rparr>,
                 e_props = e_props (entity se)\<rparr>) \<and>
         e_id (strip_local (entity se)) = None \<and>
         map_option kmd_local (e_kmd (strip_local (entity se))) = Some None \<and>
         requests (snd (snd (syncOne net se (f, st1)))) =
           requests st1 @
             [NetworkRequest POST (collection se) None (Some (strip_local (entity se)))] \<and>
         NetworkRequest POST (collection se) None (Some (strip_local (entity se)))
           \<in> set (requests (snd (push net query st))) \<and>
         (net (NetworkRequest POST (collection se) None (Some (strip_local (entity se)))) = Inl err \<and>
          err \<noteq> InsufficientCredentialsError \<longrightarrow>
            se\<lparr>entity := strip_local (entity se)\<rparr> \<in> set (journal (snd (push net query st))) \<and>
            \<lparr>r_id = e_id (entity se), r_entity = strip_local (entity se), r_error = Some err\<rparr>
              \<in> set (fst (push net query st)))"
proof -
  let ?req = "NetworkRequest POST (collection se) None (Some (strip_local (entity se)))"
  let ?row = "se\<lparr>entity := strip_local (entity se)\<rparr>"
  let ?res = "\<lparr>r_id = e_id (entity se), r_entity = strip_local (entity se), r_error = Some err\<rparr>"
  have rr: "remote_request se = Some ?req"
    using assms(2,3) by (auto simp: remote_request_def)
  have 0: "\<exists>k. e_kmd (entity se) = Some k \<and>
              strip_local (entity se) =
                \<lparr>e_id = None, e_kmd = Some \<lparr>kmd_local = None, kmd_rest = kmd_rest k\<rparr>,
                 e_props = e_props (entity se)\<rparr>"
    using strip_local_eq [OF assms(3)] .
  have 1: "e_id (strip_local (entity se)) = None"
    by (simp add: strip_local_def)
  have 2: "map_option kmd_local (e_kmd (strip_local (entity se))) = Some None"
    using assms(3) by (auto simp: strip_local_def isLocal_def split: option.splits)
  have 3: "requests (snd (snd (syncOne net se (f, st1)))) = requests st1 @ [?req]"
    using syncOne_local_requests [OF assms(2,3)] .
  obtain rest where "sentOf net se = ?req # rest"
    using sentOf_first [OF rr] by blast
  then have "?req \<in> set (concat (map (sentOf net) (dispatched query st)))"
    using in_concat_map [OF assms(1), of ?req "sentOf net"] by simp
  then have 4: "?req \<in> set (requests (snd (push net query st)))"
    by (simp add: push_requests)
  have 5: "?row \<in> set (journal (snd (push net query st))) \<and> ?res \<in> set (fst (push net query st))"
    if n: "net ?req = Inl err" and e: "err \<noteq> InsufficientCredentialsError"
  proof -
    have "failedOf net se = [?row]"
      using failedOf_save [of se ?req net err] rr assms(2,3) n e by simp
    then have "?row \<in> set (concat (map (failedOf net) (dispatched query st)))"
      using in_concat_map [OF assms(1), of ?row "failedOf net"] by simp
    then have a: "?row \<in> set (journal (snd (push net query st)))"
      by (simp add: push_journal)
    have "resultOf net se = ?res"
      using resultOf_save [of se ?req net err] rr assms(2,3) n by simp
    then have "?res \<in> set (fst (push net query st))"
      using assms(1) by (auto simp: push_results intro!: image_eqI [of _ _ se])
    then show ?thesis using a by simp
  qed
  show ?thesis using 0 1 2 3 4 5 by blast
qed

theorem push_local_create_failure_keeps_stripped_entity_witness:
  "row_keyed 2 POST ent_local \<in> set (dispatched all_rows state_three) \<and>
   (state_method (row_keyed 2 POST ent_local) = POST \<or>
    state_method (row_keyed 2 POST ent_local) = PUT) \<and>
   isLocal (entity (row_keyed 2 POST ent_local)) \<and>
   net_500 (NetworkRequest POST (collection (row_keyed 2 POST ent_local)) None
              (Some (strip_local (entity (row_keyed 2 POST ent_local))))) = Inl (OtherError ''500'') \<and>
   OtherError ''500'' \<noteq> InsufficientCredentialsError \<and>
   strip_local (entity (row_keyed 2 POST ent_local)) =
     \<lparr>e_id = None, e_kmd = Some \<lparr>kmd_local = None, kmd_rest = []\<rparr>, e_props = [(''v'', ''2'')]\<rparr> \<and>
   requests (snd (snd (syncOne net_500 (row_keyed 2 POST ent_local) ([], state_three)))) =
     requests state_three @
       [NetworkRequest POST (collection (row_keyed 2 POST ent_local)) None
          (Some (strip_local (entity (row_keyed 2 POST ent_local))))] \<and>
   NetworkRequest POST (collection (row_keyed 2 POST ent_local)) None
       (Some (strip_local (entity (row_keyed 2 POST ent_local))))
     \<in> set (requests (snd (push net_500 all_rows state_three))) \<and>
   (row_keyed 2 POST ent_local)\<lparr>entity := strip_local (entity (row_keyed 2 POST ent_local))\<rparr>
     \<in> set (journal (snd (push net_500 all_rows state_three))) \<and>
   \<lparr>r_id = e_id (entity (row_keyed 2 POST ent_local)),
    r_entity = strip_local (entity (row_keyed 2 POST ent_local)),
    r_error = Some (OtherError ''500'')\<rparr>
     \<in> set (fst (push net_500 all_rows state_three))"
proof -
  let ?se = "row_keyed 2 POST ent_local"
  have d: "?se \<in> set (dispatched all_rows state_three)"
    by (simp add: row_eval state_three_def row_keyed_def ent_a_def ent_b_def ent_local_def)
  have m: "state_method ?se = POST \<or> state_method ?se = PUT"
    by (simp add: row_keyed_def)
  have l: "isLocal (entity ?se)"
    by (simp add: row_keyed_def isLocal_def ent_local_def)
  have n: "net_500 (NetworkRequest POST (collection ?se) None
              (Some (strip_local (entity ?se)))) = Inl (OtherError ''500'')"
    by (simp add: net_500_def)
  have e: "OtherError ''500'' \<noteq> InsufficientCredentialsError"
    by simp
  have k: "e_kmd (entity ?se) = Some \<lparr>kmd_local = Some True, kmd_rest = []\<rparr>"
    and p: "e_props (entity ?se) = [(''v'', ''2'')]"
    by (simp_all add: row_keyed_def ent_local_def)
  note t = push_local_create_failure_keeps_stripped_entity
      [where net = net_500 and err = "OtherError ''500''" and f = "[]" and ?st1.0 = state_three,
       OF d m l]
  have st: "strip_local (entity ?se) =
      \<lparr>e_id = None, e_kmd = Some \<lparr>kmd_local = None, kmd_rest = []\<rparr>, e_props = [(''v'', ''2'')]\<rparr>"
    using t k p by auto
  show ?thesis
    using d m l n e st t by blast
qed

section \<open>count\<close>

lemma state_aba_journal:
  "journal state_aba =
     [\<lparr>key = 1, entityId = ''a'', collection = ''books'', state_method = POST, entity = ent_a\<rparr>,
      \<lparr>key = 2, entityId = ''b'', collection = ''books'', state_method = POST, entity = ent_b\<rparr>,
      \<lparr>key = 3, entityId = ''a'', collection = ''books'', state_method = POST, entity = ent_a\<rparr>]"
  by (simp add: state_aba_def createSaveOperation_def createOperation_def castArray_def
      enqueue_def getSyncKey_def setSyncKey_def sync_table_post_def truthy_def empty_state_def
      ent_a_def ent_b_def Let_def)

lemma set_insert_desc: "set (insert_desc x xs) = insert x (set xs)"
  by (induction xs) auto

lemma set_orderBy_key_desc: "set (orderBy_key_desc xs) = set xs"
  by (induction xs) (simp_all add: orderBy_key_desc_def set_insert_desc)

lemma baseSortedUniq_same: "\<forall>r\<in>set xs. entityId r = i \<Longrightarrow> baseSortedUniq i xs = []"
  by (induction xs) auto

text \<open>Rows that all have one \<open>entityId\<close> count as one.\<close>

lemma count_same_entity:
  assumes "sync_table_get query st \<noteq> []"
    and "\<forall>r\<in>set (sync_table_get query st). entityId r = i"
  shows "count query st = 1"
proof -
  let ?xs = "orderBy_key_desc (sync_table_get query st)"
  have s: "set ?xs = set (sync_table_get query st)"
    by (rule set_orderBy_key_desc)
  then have "?xs \<noteq> []" using assms(1) by (metis set_empty)
  then obtain v vs where c: "?xs = v # vs" by (cases ?xs) auto
  have "\<forall>r\<in>set (v # vs). entityId r = i" using s c assms(2) by simp
  then have "baseSortedUniq (entityId v) vs = []"
    using baseSortedUniq_same [of vs i] by simp
  then show ?thesis by (simp add: count_def c sortedUniqBy_entityId_def)
qed

text \<open>
  C6 (evaluation at the failing input). After saving \<open>a\<close>, \<open>b\<close> and \<open>a\<close> again the sync table
  holds three rows for two entities, and \<open>count\<close> answers 3: in the order of descending
  keys the two rows of \<open>a\<close> are not next to each other, and \<open>sortedUniqBy\<close> compares a row
  with the one before it only.
\<close>

theorem count_interleaved:
  "count all_rows state_aba = 3 \<and> card (entityId ` set (sync_table_get all_rows state_aba)) = 2"
proof -
  have c: "count all_rows state_aba = 3"
    by (simp add: count_def sync_table_get_def state_aba_journal all_rows_def
        orderBy_key_desc_def sortedUniqBy_entityId_def Let_def)
  have "entityId ` set (sync_table_get all_rows state_aba) = set [''a'', ''b'']"
    by (auto simp: sync_table_get_def state_aba_journal all_rows_def)
  then have "card (entityId ` set (sync_table_get all_rows state_aba)) =
      length (remdups [''a'', ''b''])"
    by (simp only: card_set)
  then show ?thesis using c by simp
qed

section \<open>Store: the names that pass\<close>

text \<open>The test looks at the first character only.\<close>

lemma validCollectionRegex_test_iff:
  "validCollectionRegex_test s \<longleftrightarrow> (\<exists>c cs. s = c # cs \<and> valid_char c)"
  by (cases s) (auto simp: validCollectionRegex_test_def)

lemma spec_name_pattern_imp_test: "spec_name_pattern s \<Longrightarrow> validCollectionRegex_test s"
  by (cases s) (auto simp: spec_name_pattern_def validCollectionRegex_test_iff)

text \<open>
  C8 (evaluation at the failing input). The database name \<open>a b\<close> does not match
  \<open>^[A-Za-z0-9-]{1,128}$\<close> (it holds a space), and the constructor takes it: the store is
  built.
\<close>

theorem Store_accepts_name_with_space:
  "\<not> spec_name_pattern ''a b'' \<and>
   Store (\<lambda>a. True) [StoreAdapter_IndexedDB]
       \<lparr>db_name = Some (JString ''a b''), db_collection = None\<rparr> =
     Inr \<lparr>store_adapter = IndexedDBAdapter, store_name = JString ''a b'',
          store_collection = JString ''data''\<rparr>"
  by (simp add: spec_name_pattern_def Store_def isString_def regex_test_value_def
      validCollectionRegex_test_def valid_char_def)

text \<open>At this input both names pass both tests of the constructor and an adapter is found.\<close>

theorem Store_accepts_name_with_space_witness:
  "isString (JString ''a b'') \<and> regex_test_value (JString ''a b'') \<and>
   isString (JString ''data'') \<and> regex_test_value (JString ''data'') \<and>
   select_adapter (\<lambda>a. True) [StoreAdapter_IndexedDB] = Some IndexedDBAdapter \<and>
   (\<exists>s. Store (\<lambda>a. True) [StoreAdapter_IndexedDB]
          \<lparr>db_name = Some (JString ''a b''), db_collection = None\<rparr> = Inr s)"
  using Store_accepts_name_with_space
  by (simp add: isString_def regex_test_value_def validCollectionRegex_test_def valid_char_def)

section \<open>clearAll\<close>

text \<open>
  \<open>execute\<close> replaces \<open>#{table}\<close>; the statement of \<open>clearAll\<close> names \<open>#{collection}\<close> and
  goes to the engine as it is.
\<close>

lemma clearAll_select_kept:
  "replace_first ''#{table}'' ([dq] @ MASTER_TABLE_NAME @ [dq])
     ''SELECT name AS value FROM #{collection} WHERE type = ?'' =
   ''SELECT name AS value FROM #{collection} WHERE type = ?''"
  by (simp add: dq_def MASTER_TABLE_NAME_def)

lemma clearAll_rejected:
  "clearAll dbName db =
     (Rejected (SyntaxError ''SELECT name AS value FROM #{collection} WHERE type = ?''), db)"
  by (simp add: clearAll_def execute_def clearAll_select_kept executeSql_def strip_prefix_def
      MASTER_TABLE_NAME_def dq_def sq_def)

text \<open>
  C9 (evaluation at the failing input). A database with the one user table \<open>books\<close>:
  \<open>clearAll\<close> is rejected with the syntax error of its first statement and the table is
  still there.
\<close>

theorem clearAll_drops_nothing:
  "clearAll ''kinvey'' [(''books'', [(''1'', ''{}'')])] =
     (Rejected (SyntaxError ''SELECT name AS value FROM #{collection} WHERE type = ?''),
      [(''books'', [(''1'', ''{}'')])])"
  by (rule clearAll_rejected)

end
